theory Spec2Isabelle
  imports Main "HOL-Library.AList"
begin

section \<open>Mode dashboard executions extractor\<close>

text \<open>
  A shallow embedding of
  \<^verbatim>\<open>databuilder/extractor/dashboard/mode_dashboard_executions_extractor.py\<close>:
  the class \<^verbatim>\<open>ModeDashboardExecutionsExtractor\<close> with its methods
  \<^verbatim>\<open>init\<close>, \<^verbatim>\<open>extract\<close> and \<^verbatim>\<open>_build_restapi_query\<close>.
  The classes it wires together (the REST query, the REST extractor, the transformers,
  the scoped configuration) live in other modules of the package; what this file needs of
  them is modelled from the specification and marked as such.
\<close>

subsection \<open>Python values\<close>

text \<open>
  The values that travel through the extractor: \<^verbatim>\<open>None\<close>, scalars, lists,
  dictionaries (association lists in insertion order) and instances of a model class. An
  instance is kept as the class name with the keyword arguments its constructor received.
\<close>

datatype pyval =
    PNone
  | PBool bool
  | PInt int
  | PStr string
  | PList "pyval list"
  | PDict "(string \<times> pyval) list"
  | PModel string "(string \<times> pyval) list"

type_synonym pydict = "(string \<times> pyval) list"

text \<open>Python's truth value of an object, as \<^verbatim>\<open>if not record\<close> tests it.\<close>

fun truthy :: "pyval \<Rightarrow> bool" where
  "truthy PNone = False"
| "truthy (PBool b) = b"
| "truthy (PInt n) = (n \<noteq> 0)"
| "truthy (PStr s) = (s \<noteq> [])"
| "truthy (PList xs) = (xs \<noteq> [])"
| "truthy (PDict d) = (d \<noteq> [])"
| "truthy (PModel c kw) = True"

text \<open>\<^verbatim>\<open>d.update(other)\<close>: every item of \<^verbatim>\<open>other\<close> is stored into \<^verbatim>\<open>d\<close>, in order.\<close>

definition dict_update :: "pydict \<Rightarrow> pydict \<Rightarrow> pydict" where
  "dict_update d other = fold (\<lambda>(k, v). AList.update k v) other d"

subsection \<open>Errors\<close>

datatype error =
    ConfigMissingException "string list"
  | AttributeError
  | TypeError
  | ValueError string
  | QueryError string

subsection \<open>The REST query plan\<close>

text \<open>
  \<^verbatim>\<open>RestApiQuerySeed(seed_record=...)\<close> and
  \<^verbatim>\<open>RestApiQuery(query_to_join=..., url=..., params=..., json_path=..., field_names=...,
  skip_no_result=..., json_path_contains_or=...)\<close> are constructor calls; the plan they
  build is a value. The two flags are optional keyword arguments: \<open>None\<close> records that
  the caller did not pass the argument.
\<close>

datatype http_auth = HTTPBasicAuth string string

type_synonym params = "(string \<times> http_auth) list"

datatype rest_query =
    RestApiQuerySeed "pydict list"
  | RestApiQuery rest_query string params string "string list" "bool option" "bool option"

record query_step =
  step_url :: string
  step_params :: params
  step_json_path :: string
  step_field_names :: "string list"
  step_skip_no_result :: "bool option"
  step_json_path_contains_or :: "bool option"

text \<open>The steps of a plan, the one joined first (next to the seed) first.\<close>

fun steps :: "rest_query \<Rightarrow> query_step list" where
  "steps (RestApiQuerySeed recs) = []"
| "steps (RestApiQuery query_to_join url ps json_path field_names skip cor) =
     steps query_to_join @
       [\<lparr>step_url = url, step_params = ps, step_json_path = json_path,
         step_field_names = field_names, step_skip_no_result = skip,
         step_json_path_contains_or = cor\<rparr>]"

fun seed_record :: "rest_query \<Rightarrow> pydict list" where
  "seed_record (RestApiQuerySeed recs) = recs"
| "seed_record (RestApiQuery query_to_join url ps json_path field_names skip cor) =
     seed_record query_to_join"

text \<open>
  The replacement fields of a URL template, as \<^verbatim>\<open>str.format\<close> reads them: the
  names between \<^verbatim>\<open>{\<close> and \<^verbatim>\<open>}\<close>, left to right. The second argument holds the
  name being read.
\<close>

fun scan_fields :: "string \<Rightarrow> string option \<Rightarrow> string list" where
  "scan_fields [] cur = []"
| "scan_fields (c # cs) None =
     (if c = CHR ''{'' then scan_fields cs (Some []) else scan_fields cs None)"
| "scan_fields (c # cs) (Some name) =
     (if c = CHR ''}'' then name # scan_fields cs None
      else scan_fields cs (Some (name @ [c])))"

definition url_fields :: "string \<Rightarrow> string list" where
  "url_fields url = scan_fields url None"

text \<open>
  The field names carried by every record a query yields: the keys common to the seed
  records, then the field names each step adds.
\<close>

fun output_fields :: "rest_query \<Rightarrow> string list" where
  "output_fields (RestApiQuerySeed recs) =
     (case recs of
        [] \<Rightarrow> []
      | r # rs \<Rightarrow> filter (\<lambda>k. list_all (\<lambda>r'. k \<in> set (map fst r')) rs) (map fst r))"
| "output_fields (RestApiQuery query_to_join url ps json_path field_names skip cor) =
     output_fields query_to_join @ field_names"

text \<open>
  A plan is joined when every step's URL template names only fields that the query it
  joins on produces.
\<close>

fun joined :: "rest_query \<Rightarrow> bool" where
  "joined (RestApiQuerySeed recs) = True"
| "joined (RestApiQuery query_to_join url ps json_path field_names skip cor) =
     (joined query_to_join \<and> list_all (\<lambda>f. f \<in> set (output_fields query_to_join)) (url_fields url))"

subsection \<open>Configuration\<close>

text \<open>
  A \<^verbatim>\<open>ConfigTree\<close> is kept flat: each leaf with the path of keys that leads to it.
  The configuration handed to \<^verbatim>\<open>init\<close> has string leaves.
  \<^verbatim>\<open>get_string\<close> raises \<^verbatim>\<open>ConfigMissingException\<close> for a key without a value.
\<close>

type_synonym 'v config_tree = "(string list \<times> 'v) list"

type_synonym config = "string config_tree"

definition get_string :: "config \<Rightarrow> string \<Rightarrow> error + string" where
  "get_string conf key =
     (case map_of conf [key] of
        None \<Rightarrow> Inl (ConfigMissingException [key])
      | Some v \<Rightarrow> Inr v)"

text \<open>The configuration keys this module declares.\<close>

definition ORGANIZATION :: string where
  "ORGANIZATION = ''organization''"

definition MODE_ACCESS_TOKEN :: string where
  "MODE_ACCESS_TOKEN = ''mode_user_token''"

definition MODE_PASSWORD_TOKEN :: string where
  "MODE_PASSWORD_TOKEN = ''mode_password_token''"

subsection \<open>Building the query\<close>

text \<open>
  \<^verbatim>\<open>_build_restapi_query\<close>. The three \<^verbatim>\<open>get_string\<close> calls happen in the order of
  the source: the organization for the seed record, then the two tokens for
  \<^verbatim>\<open>HTTPBasicAuth\<close>; the first missing key raises. The same \<^verbatim>\<open>params\<close> dictionary
  is passed to the three \<^verbatim>\<open>RestApiQuery\<close> constructors. The spaces query is built
  without \<^verbatim>\<open>skip_no_result\<close> and without \<^verbatim>\<open>json_path_contains_or\<close>; the run state
  query without \<^verbatim>\<open>json_path_contains_or\<close>.
\<close>

definition build_restapi_query :: "config \<Rightarrow> error + rest_query" where
  "build_restapi_query conf =
     (case get_string conf ORGANIZATION of
        Inl e \<Rightarrow> Inl e
      | Inr organization \<Rightarrow>
          let seed_query = RestApiQuerySeed [[(''organization'', PStr organization)]] in
          (case get_string conf MODE_ACCESS_TOKEN of
             Inl e \<Rightarrow> Inl e
           | Inr user_token \<Rightarrow>
               (case get_string conf MODE_PASSWORD_TOKEN of
                  Inl e \<Rightarrow> Inl e
                | Inr password_token \<Rightarrow>
                    let ps = [(''auth'', HTTPBasicAuth user_token password_token)];
                        spaces_query =
                          RestApiQuery seed_query
                            ''https://app.mode.com/api/{organization}/spaces?filter=all''
                            ps ''_embedded.spaces[*].[token]'' [''dashboard_group_id'']
                            None None;
                        last_run_resource_path_query =
                          RestApiQuery spaces_query
                            ''https://app.mode.com/api/{organization}/spaces/{dashboard_group_id}/reports''
                            ps
                            ''(_embedded.reports[*].token) | (_embedded.reports[*]._links.last_run.href)''
                            [''dashboard_id'', ''last_run_resource_path'']
                            (Some True) (Some True);
                        last_run_state_query =
                          RestApiQuery last_run_resource_path_query
                            ''https://app.mode.com{last_run_resource_path}''
                            ps ''[state,completed_at]''
                            [''execution_state'', ''execution_timestamp'']
                            (Some True) None
                    in Inr last_run_state_query)))"

subsection \<open>Names declared by the other modules\<close>

text \<open>
  \<^verbatim>\<open>init\<close> uses configuration keys and scopes that the imported modules declare:
  \<^verbatim>\<open>REST_API_QUERY\<close>, \<^verbatim>\<open>STATIC_RECORD_DICT\<close>, \<^verbatim>\<open>FIELD_NAME\<close>,
  \<^verbatim>\<open>MODEL_CLASS\<close> and the results of the three \<^verbatim>\<open>get_scope()\<close> calls. Their
  values are parameters of the model; a scope is the path of keys it denotes.
\<close>

record names =
  restapi_scope :: "string list"
  REST_API_QUERY :: string
  STATIC_RECORD_DICT :: string
  timestamp_scope :: "string list"
  FIELD_NAME :: string
  dict_to_model_scope :: "string list"
  MODEL_CLASS :: string

text \<open>One assignment of the names, for evaluating the model on examples.\<close>

definition example_names :: names where
  "example_names =
     \<lparr>restapi_scope = [''extractor'', ''restapi''],
      REST_API_QUERY = ''restapi_query'',
      STATIC_RECORD_DICT = ''static_record_dict'',
      timestamp_scope = [''transformer'', ''timestamp_str_to_epoch''],
      FIELD_NAME = ''field_name'',
      dict_to_model_scope = [''transformer'', ''dict_to_model''],
      MODEL_CLASS = ''model_class''\<rparr>"

subsection \<open>Scoped configuration and fallbacks\<close>

fun strip_prefix :: "'a list \<Rightarrow> 'a list \<Rightarrow> 'a list option" where
  "strip_prefix [] ys = Some ys"
| "strip_prefix (x # xs) [] = None"
| "strip_prefix (x # xs) (y # ys) = (if x = y then strip_prefix xs ys else None)"

text \<open>
  Modelled from the spec: \<^verbatim>\<open>Scoped.get_scoped_conf\<close> is not in the sources at hand.
  The specification says that each sub-component receives its own scoped configuration
  view: the leaves below the scope, with the scope removed from their paths.
\<close>

definition get_scoped_conf :: "'v config_tree \<Rightarrow> string list \<Rightarrow> 'v config_tree" where
  "get_scoped_conf conf scope =
     List.map_filter (\<lambda>(k, v). map_option (\<lambda>k'. (k', v)) (strip_prefix scope k)) conf"

text \<open>
  \<^verbatim>\<open>self.with_fallback(fallback)\<close>: the values of \<^verbatim>\<open>self\<close> take precedence, the
  fallback supplies the keys that \<^verbatim>\<open>self\<close> lacks.
\<close>

definition with_fallback :: "'v config_tree \<Rightarrow> 'v config_tree \<Rightarrow> 'v config_tree" where
  "with_fallback self fallback = AList.merge fallback self"

text \<open>
  The configuration handed to the REST extractor holds a query object beside strings.
\<close>

datatype conf_value = CString string | CQuery rest_query

subsection \<open>The REST extractor\<close>

text \<open>
  The remote service, as the extractor sees it: running a query plan yields records one
  at a time and then either ends or raises. \<^verbatim>\<open>RestApiQuery.execute\<close> and the HTTP
  service behind it are outside this module; they are a parameter.
\<close>

type_synonym service = "rest_query \<Rightarrow> pydict list \<times> error option"

record rest_api_extractor =
  restapi_query :: conf_value
  static_dict :: pydict
  iterator :: "(pydict list \<times> error option) option"

text \<open>
  Modelled from the spec: \<^verbatim>\<open>RestAPIExtractor\<close> is not in the sources at hand. The
  specification describes a generic extractor that is seeded with the query chain and a
  constant field injection. The injected fields are the string leaves directly below
  \<^verbatim>\<open>STATIC_RECORD_DICT\<close> in the extractor's configuration.
\<close>

definition static_record_dict :: "names \<Rightarrow> conf_value config_tree \<Rightarrow> pydict" where
  "static_record_dict K conf =
     List.map_filter
       (\<lambda>(k, v). case k of
                    [f] \<Rightarrow> (case v of CString s \<Rightarrow> Some (f, PStr s) | CQuery q \<Rightarrow> None)
                  | _ \<Rightarrow> None)
       (get_scoped_conf conf [STATIC_RECORD_DICT K])"

text \<open>
  Modelled from the spec: \<^verbatim>\<open>RestAPIExtractor.init\<close> is not in the sources at hand.
  The specification says that the extractor is seeded with the chain and the constant
  fields, and that initialization performs no I/O: the query and the static dictionary are
  stored, and no iteration is started.
\<close>

definition restapi_init :: "names \<Rightarrow> conf_value config_tree \<Rightarrow> error + rest_api_extractor" where
  "restapi_init K conf =
     (case map_of conf [REST_API_QUERY K] of
        None \<Rightarrow> Inl (ConfigMissingException [REST_API_QUERY K])
      | Some q \<Rightarrow>
          Inr \<lparr>restapi_query = q, static_dict = static_record_dict K conf, iterator = None\<rparr>)"

text \<open>
  Modelled from the spec: \<^verbatim>\<open>RestAPIExtractor.extract\<close> is not in the sources at
  hand. The specification says that it executes the chained query, yields one flattened
  record at a time and returns the empty signal when none remains. The query is started
  by the first call; each record gets the static fields; the exception that ends an
  iteration is passed on once; after the end every call returns \<^verbatim>\<open>None\<close>. A
  configured query that is no query object has no \<^verbatim>\<open>execute\<close> method.
\<close>

definition restapi_extract ::
  "service \<Rightarrow> rest_api_extractor \<Rightarrow> (error + pyval) \<times> rest_api_extractor" where
  "restapi_extract srv e =
     (case (case iterator e of
              Some it \<Rightarrow> Inr it
            | None \<Rightarrow> (case restapi_query e of
                         CQuery q \<Rightarrow> Inr (srv q)
                       | CString s \<Rightarrow> Inl AttributeError)) of
        Inl err \<Rightarrow> (Inl err, e)
      | Inr (recs, ending) \<Rightarrow>
          (case recs of
             r # rs \<Rightarrow>
               (Inr (PDict (dict_update r (static_dict e))), e\<lparr>iterator := Some (rs, ending)\<rparr>)
           | [] \<Rightarrow>
               (case ending of
                  Some err \<Rightarrow> (Inl err, e\<lparr>iterator := Some ([], None)\<rparr>)
                | None \<Rightarrow> (Inr PNone, e\<lparr>iterator := Some ([], None)\<rparr>))))"

subsection \<open>Timestamps\<close>

text \<open>
  Modelled from the spec: the conversion of \<^verbatim>\<open>TimestampStringToEpoch\<close> is not in the
  sources at hand. The specification speaks of an ISO-8601 field and an epoch integer;
  reading the one and counting the other needs decimal numbers, the lengths of the months
  and the day count of the proleptic Gregorian calendar.
\<close>

definition digit :: "char \<Rightarrow> nat option" where
  "digit c = (let n = (of_char c :: nat) in if 48 \<le> n \<and> n \<le> 57 then Some (n - 48) else None)"

fun number :: "string \<Rightarrow> nat \<Rightarrow> nat option" where
  "number [] acc = Some acc"
| "number (c # cs) acc = (case digit c of None \<Rightarrow> None | Some d \<Rightarrow> number cs (10 * acc + d))"

definition leap_year :: "nat \<Rightarrow> bool" where
  "leap_year y = (y mod 4 = 0 \<and> (y mod 100 \<noteq> 0 \<or> y mod 400 = 0))"

definition days_in_month :: "nat \<Rightarrow> nat \<Rightarrow> nat" where
  "days_in_month y m =
     (if m = 2 then (if leap_year y then 29 else 28)
      else if m = 4 \<or> m = 6 \<or> m = 9 \<or> m = 11 then 30 else 31)"

text \<open>Days from 1970-01-01 to the given date of the proleptic Gregorian calendar.\<close>

definition days_from_civil :: "int \<Rightarrow> int \<Rightarrow> int \<Rightarrow> int" where
  "days_from_civil y m d =
     (let y' = (if m \<le> 2 then y - 1 else y);
          era = y' div 400;
          yoe = y' - era * 400;
          doy = (153 * (if m > 2 then m - 3 else m + 9) + 2) div 5 + d - 1;
          doe = yoe * 365 + yoe div 4 - yoe div 100 + doy
      in era * 146097 + doe - 719468)"

text \<open>
  Modelled from the spec: part of the same conversion. What may follow the seconds of a
  UTC timestamp: \<^verbatim>\<open>Z\<close>, or a fraction of a second and \<^verbatim>\<open>Z\<close>.
\<close>

definition zone_ok :: "string \<Rightarrow> bool" where
  "zone_ok rest =
     (case rest of
        [] \<Rightarrow> False
      | c # cs \<Rightarrow>
          if c = CHR ''Z'' then cs = []
          else c = CHR ''.'' \<and>
               (case rev cs of
                  [] \<Rightarrow> False
                | z # ds \<Rightarrow> z = CHR ''Z'' \<and> ds \<noteq> [] \<and> number ds 0 \<noteq> None))"

text \<open>
  Modelled from the spec: the conversion of \<^verbatim>\<open>TimestampStringToEpoch\<close> is not in the
  sources at hand. The specification says that the transformer converts an ISO-8601
  field to an epoch integer, and that the input \<^verbatim>\<open>2021-01-01T00:00:00Z\<close> gives
  1609459200. The model reads a UTC timestamp \<^verbatim>\<open>YYYY-MM-DDTHH:MM:SSZ\<close>, with an
  optional fraction of a second before the \<^verbatim>\<open>Z\<close>, checks the ranges of its parts
  and counts the whole seconds since 1970-01-01T00:00:00Z; any other string has no value.
\<close>

definition iso8601_to_epoch :: "string \<Rightarrow> int option" where
  "iso8601_to_epoch s =
     (if length s < 20 \<or> s ! 4 \<noteq> CHR ''-'' \<or> s ! 7 \<noteq> CHR ''-'' \<or> s ! 10 \<noteq> CHR ''T''
         \<or> s ! 13 \<noteq> CHR '':'' \<or> s ! 16 \<noteq> CHR '':'' \<or> \<not> zone_ok (drop 19 s)
      then None
      else
        (case number (take 4 s) 0 of None \<Rightarrow> None | Some y \<Rightarrow>
        (case number (take 2 (drop 5 s)) 0 of None \<Rightarrow> None | Some m \<Rightarrow>
        (case number (take 2 (drop 8 s)) 0 of None \<Rightarrow> None | Some d \<Rightarrow>
        (case number (take 2 (drop 11 s)) 0 of None \<Rightarrow> None | Some hh \<Rightarrow>
        (case number (take 2 (drop 14 s)) 0 of None \<Rightarrow> None | Some mm \<Rightarrow>
        (case number (take 2 (drop 17 s)) 0 of None \<Rightarrow> None | Some ss \<Rightarrow>
           if 1 \<le> y \<and> 1 \<le> m \<and> m \<le> 12 \<and> 1 \<le> d \<and> d \<le> days_in_month y m
              \<and> hh < 24 \<and> mm < 60 \<and> ss < 60
           then Some (days_from_civil (int y) (int m) (int d) * 86400
                      + int hh * 3600 + int mm * 60 + int ss)
           else None)))))))"

subsection \<open>The transformers\<close>

text \<open>
  The transformer objects that \<^verbatim>\<open>init\<close> creates: a
  \<^verbatim>\<open>TimestampStringToEpoch\<close> with its field name, a \<^verbatim>\<open>DictToModel\<close> with the
  name of its model class, and the \<^verbatim>\<open>ChainedTransformer\<close> over a list of them.
\<close>

datatype transformer = TimestampStringToEpoch string | DictToModel string

datatype chained_transformer = ChainedTransformer "transformer list"

text \<open>
  Modelled from the spec: \<^verbatim>\<open>TimestampStringToEpoch.init\<close> is not in the sources at
  hand. The specification says that the normalizer is configured with the name of the
  field it targets; the name is read from \<^verbatim>\<open>FIELD_NAME\<close>.
\<close>

definition timestamp_init :: "names \<Rightarrow> config \<Rightarrow> error + transformer" where
  "timestamp_init K conf =
     (case get_string conf (FIELD_NAME K) of
        Inl e \<Rightarrow> Inl e
      | Inr field_name \<Rightarrow> Inr (TimestampStringToEpoch field_name))"

text \<open>
  Modelled from the spec: \<^verbatim>\<open>DictToModel.init\<close> is not in the sources at hand. The
  specification says that the mapper is configured with the model type by name; the name
  is read from \<^verbatim>\<open>MODEL_CLASS\<close>.
\<close>

definition dict_to_model_init :: "names \<Rightarrow> config \<Rightarrow> error + transformer" where
  "dict_to_model_init K conf =
     (case get_string conf (MODEL_CLASS K) of
        Inl e \<Rightarrow> Inl e
      | Inr model_class \<Rightarrow> Inr (DictToModel model_class))"

text \<open>
  Modelled from the spec: the \<^verbatim>\<open>transform\<close> methods of
  \<^verbatim>\<open>TimestampStringToEpoch\<close> and \<^verbatim>\<open>DictToModel\<close> are not in the sources at
  hand. The specification gives a timestamp normalizer that rewrites the named field of
  the record to its epoch value, and a record-to-model mapper that constructs the typed
  record from the fields of the mapping. A record without the named field has nothing to
  convert; a value that is no timestamp string, and an input that is no mapping, raise.
\<close>

fun to_epoch :: "pyval \<Rightarrow> error + pyval" where
  "to_epoch (PStr s) =
     (case iso8601_to_epoch s of None \<Rightarrow> Inl (ValueError s) | Some t \<Rightarrow> Inr (PInt t))"
| "to_epoch v = Inl TypeError"

fun transform :: "transformer \<Rightarrow> pyval \<Rightarrow> error + pyval" where
  "transform (TimestampStringToEpoch field_name) (PDict r) =
     (case map_of r field_name of
        None \<Rightarrow> Inr (PDict r)
      | Some v \<Rightarrow>
          (case to_epoch v of
             Inl e \<Rightarrow> Inl e
           | Inr t \<Rightarrow> Inr (PDict (AList.update field_name t r))))"
| "transform (DictToModel model_class) (PDict r) = Inr (PModel model_class r)"
| "transform t v = Inl TypeError"

text \<open>
  Modelled from the spec: \<^verbatim>\<open>ChainedTransformer.transform\<close> is not in the sources at
  hand. The specification says that the record is passed through the transform chain in
  order; a stage that raises ends the chain.
\<close>

fun transform_all :: "transformer list \<Rightarrow> pyval \<Rightarrow> error + pyval" where
  "transform_all [] r = Inr r"
| "transform_all (t # ts) r =
     (case transform t r of Inl e \<Rightarrow> Inl e | Inr r' \<Rightarrow> transform_all ts r')"

fun chained_transform :: "chained_transformer \<Rightarrow> pyval \<Rightarrow> error + pyval" where
  "chained_transform (ChainedTransformer transformers) r = transform_all transformers r"

subsection \<open>The extractor\<close>

text \<open>
  The fields \<^verbatim>\<open>self._conf\<close>, \<^verbatim>\<open>self._extractor\<close> and \<^verbatim>\<open>self._transformer\<close>.
\<close>

record ('e, 't) mode_dashboard_executions_extractor =
  self_conf :: config
  self_extractor :: 'e
  self_transformer :: 't

definition DASHBOARD_EXECUTION :: string where
  "DASHBOARD_EXECUTION = ''databuilder.models.dashboard.dashboard_execution.DashboardExecution''"

text \<open>
  \<^verbatim>\<open>init\<close>: the query is built first; then the REST extractor is initialised with
  its scoped configuration over the fallback that holds the query and the static record
  \<^verbatim>\<open>{'product': 'mode'}\<close>; then the two transformers, each with its scoped
  configuration over its fallback, are put into the chain in the order of the source.
\<close>

definition init ::
  "names \<Rightarrow> config \<Rightarrow>
   error + (rest_api_extractor, chained_transformer) mode_dashboard_executions_extractor" where
  "init K conf =
     (case build_restapi_query conf of
        Inl e \<Rightarrow> Inl e
      | Inr query \<Rightarrow>
          let rest_api_extractor_conf =
                with_fallback
                  (map (\<lambda>(k, v). (k, CString v)) (get_scoped_conf conf (restapi_scope K)))
                  [([REST_API_QUERY K], CQuery query),
                   ([STATIC_RECORD_DICT K, ''product''], CString ''mode'')]
          in
          (case restapi_init K rest_api_extractor_conf of
             Inl e \<Rightarrow> Inl e
           | Inr extractor \<Rightarrow>
               (case timestamp_init K
                       (with_fallback (get_scoped_conf conf (timestamp_scope K))
                          [([FIELD_NAME K], ''execution_timestamp'')]) of
                  Inl e \<Rightarrow> Inl e
                | Inr timestamp_str_to_epoch_transformer \<Rightarrow>
                    (case dict_to_model_init K
                            (with_fallback (get_scoped_conf conf (dict_to_model_scope K))
                               [([MODEL_CLASS K], DASHBOARD_EXECUTION)]) of
                       Inl e \<Rightarrow> Inl e
                     | Inr dict_to_model_transformer \<Rightarrow>
                         Inr \<lparr>self_conf = conf,
                              self_extractor = extractor,
                              self_transformer =
                                ChainedTransformer
                                  [timestamp_str_to_epoch_transformer,
                                   dict_to_model_transformer]\<rparr>))))"

text \<open>
  \<^verbatim>\<open>extract\<close>, here \<open>extract'\<close>. The two method calls go to the objects held in
  the fields; the methods are arguments, so that the definition covers any underlying extractor and any
  transformer. A method of the underlying extractor returns its result, or the exception
  it raised, with the state it left behind.
\<close>

definition extract' ::
  "('e \<Rightarrow> (error + pyval) \<times> 'e) \<Rightarrow> ('t \<Rightarrow> pyval \<Rightarrow> error + pyval) \<Rightarrow>
   ('e, 't) mode_dashboard_executions_extractor \<Rightarrow>
   (error + pyval) \<times> ('e, 't) mode_dashboard_executions_extractor" where
  "extract' extractor_extract transformer_transform self =
     (case extractor_extract (self_extractor self) of
        (res, e') \<Rightarrow>
          let self' = self\<lparr>self_extractor := e'\<rparr> in
          (case res of
             Inl err \<Rightarrow> (Inl err, self')
           | Inr record \<Rightarrow>
               if \<not> truthy record then (Inr PNone, self')
               else (transformer_transform (self_transformer self') record, self')))"

text \<open>The extractor as \<^verbatim>\<open>init\<close> wires it, against a service.\<close>

definition mode_extract ::
  "service \<Rightarrow> (rest_api_extractor, chained_transformer) mode_dashboard_executions_extractor \<Rightarrow>
   (error + pyval) \<times> (rest_api_extractor, chained_transformer) mode_dashboard_executions_extractor" where
  "mode_extract srv self = extract' (restapi_extract srv) chained_transform self"

text \<open>The state after a number of calls to a method that returns a result and a state.\<close>

fun after_calls :: "('s \<Rightarrow> 'r \<times> 's) \<Rightarrow> nat \<Rightarrow> 's \<Rightarrow> 's" where
  "after_calls step 0 s = s"
| "after_calls step (Suc n) s = after_calls step n (snd (step s))"

subsection \<open>The plan, and example configurations\<close>

text \<open>
  The value that \<^verbatim>\<open>_build_restapi_query\<close> returns for an organization and a pair of
  tokens (lemma \<open>build_restapi_query_plan\<close> below).
\<close>

definition mode_plan :: "string \<Rightarrow> string \<Rightarrow> string \<Rightarrow> rest_query" where
  "mode_plan org u p =
     RestApiQuery
       (RestApiQuery
          (RestApiQuery (RestApiQuerySeed [[(''organization'', PStr org)]])
             ''https://app.mode.com/api/{organization}/spaces?filter=all''
             [(''auth'', HTTPBasicAuth u p)] ''_embedded.spaces[*].[token]''
             [''dashboard_group_id''] None None)
          ''https://app.mode.com/api/{organization}/spaces/{dashboard_group_id}/reports''
          [(''auth'', HTTPBasicAuth u p)]
          ''(_embedded.reports[*].token) | (_embedded.reports[*]._links.last_run.href)''
          [''dashboard_id'', ''last_run_resource_path''] (Some True) (Some True))
       ''https://app.mode.com{last_run_resource_path}''
       [(''auth'', HTTPBasicAuth u p)] ''[state,completed_at]''
       [''execution_state'', ''execution_timestamp''] (Some True) None"

text \<open>A configuration with the three required keys, and one without the password token.\<close>

definition config_acme :: config where
  "config_acme =
     [([''organization''], ''acme''), ([''mode_user_token''], ''user''),
      ([''mode_password_token''], ''secret'')]"

definition config_no_password :: config where
  "config_no_password = [([''organization''], ''acme''), ([''mode_user_token''], ''user'')]"


text \<open>
  A configuration that sets the field name in the scope of the timestamp transformer, and
  one that sets the product in the static record of the REST extractor.
\<close>

definition config_field_override :: config where
  "config_field_override =
     [([''organization''], ''acme''), ([''mode_user_token''], ''user''),
      ([''mode_password_token''], ''secret''),
      ([''transformer'', ''timestamp_str_to_epoch'', ''field_name''], ''completed_at'')]"

definition config_static_override :: config where
  "config_static_override =
     [([''organization''], ''acme''), ([''mode_user_token''], ''user''),
      ([''mode_password_token''], ''secret''),
      ([''extractor'', ''restapi'', ''static_record_dict'', ''product''], ''other'')]"

text \<open>
  A service with one run: organization \<^verbatim>\<open>acme\<close>, space \<^verbatim>\<open>sp1\<close>, report
  \<^verbatim>\<open>r1\<close> whose last run succeeded at 2021-01-01T00:00:00Z.
\<close>

definition record_run :: pydict where
  "record_run =
     [(''organization'', PStr ''acme''), (''dashboard_group_id'', PStr ''sp1''),
      (''dashboard_id'', PStr ''r1''), (''last_run_resource_path'', PStr ''/runs/1''),
      (''execution_state'', PStr ''succeeded''),
      (''execution_timestamp'', PStr ''2021-01-01T00:00:00Z'')]"

definition service_one :: service where
  "service_one q = ([record_run], None)"

text \<open>The extractor that \<^verbatim>\<open>init\<close> returns for a configuration, given the
  timestamp field and the static product it ends up with.\<close>

definition extractor_for ::
  "config \<Rightarrow> string \<Rightarrow> string \<Rightarrow>
   (rest_api_extractor, chained_transformer) mode_dashboard_executions_extractor" where
  "extractor_for conf field product =
     \<lparr>self_conf = conf,
      self_extractor =
        \<lparr>restapi_query = CQuery (mode_plan ''acme'' ''user'' ''secret''),
         static_dict = [(''product'', PStr product)],
         iterator = None\<rparr>,
      self_transformer =
        ChainedTransformer [TimestampStringToEpoch field, DictToModel DASHBOARD_EXECUTION]\<rparr>"



section \<open>Properties\<close>

subsection \<open>The query that is built\<close>

lemma build_restapi_query_plan:
  assumes "get_string conf ORGANIZATION = Inr org"
    and "get_string conf MODE_ACCESS_TOKEN = Inr u"
    and "get_string conf MODE_PASSWORD_TOKEN = Inr p"
  shows "build_restapi_query conf = Inr (mode_plan org u p)"
  using assms by (simp add: build_restapi_query_def mode_plan_def Let_def)

lemma build_restapi_query_no_organization:
  "get_string conf ORGANIZATION = Inl e \<Longrightarrow> build_restapi_query conf = Inl e"
  by (simp add: build_restapi_query_def)

lemma build_restapi_query_no_user_token:
  "get_string conf ORGANIZATION = Inr org \<Longrightarrow> get_string conf MODE_ACCESS_TOKEN = Inl e
   \<Longrightarrow> build_restapi_query conf = Inl e"
  by (simp add: build_restapi_query_def)

lemma build_restapi_query_no_password_token:
  "get_string conf ORGANIZATION = Inr org \<Longrightarrow> get_string conf MODE_ACCESS_TOKEN = Inr u
   \<Longrightarrow> get_string conf MODE_PASSWORD_TOKEN = Inl e \<Longrightarrow> build_restapi_query conf = Inl e"
  by (simp add: build_restapi_query_def)

lemma build_restapi_query_cases:
  "(\<exists>org u p. get_string conf ORGANIZATION = Inr org \<and> get_string conf MODE_ACCESS_TOKEN = Inr u
       \<and> get_string conf MODE_PASSWORD_TOKEN = Inr p \<and> build_restapi_query conf = Inr (mode_plan org u p))
   \<or> (\<exists>key. (key = ORGANIZATION \<or> key = MODE_ACCESS_TOKEN \<or> key = MODE_PASSWORD_TOKEN)
         \<and> map_of conf [key] = None
         \<and> build_restapi_query conf = Inl (ConfigMissingException [key]))"
proof (cases "map_of conf [ORGANIZATION]")
  case None
  then have "build_restapi_query conf = Inl (ConfigMissingException [ORGANIZATION])"
    by (simp add: build_restapi_query_no_organization get_string_def)
  with None show ?thesis by auto
next
  case org: (Some org)
  then have g1: "get_string conf ORGANIZATION = Inr org"
    by (simp add: get_string_def)
  show ?thesis
  proof (cases "map_of conf [MODE_ACCESS_TOKEN]")
    case None
    then have "build_restapi_query conf = Inl (ConfigMissingException [MODE_ACCESS_TOKEN])"
      using g1 by (simp add: build_restapi_query_no_user_token get_string_def)
    with None show ?thesis by auto
  next
    case u: (Some u)
    then have g2: "get_string conf MODE_ACCESS_TOKEN = Inr u"
      by (simp add: get_string_def)
    show ?thesis
    proof (cases "map_of conf [MODE_PASSWORD_TOKEN]")
      case None
      then have "build_restapi_query conf = Inl (ConfigMissingException [MODE_PASSWORD_TOKEN])"
        using g1 g2 by (simp add: build_restapi_query_no_password_token get_string_def)
      with None show ?thesis by auto
    next
      case (Some p)
      then have g3: "get_string conf MODE_PASSWORD_TOKEN = Inr p"
        by (simp add: get_string_def)
      have "build_restapi_query conf = Inr (mode_plan org u p)"
        using g1 g2 g3 by (rule build_restapi_query_plan)
      with g1 g2 g3 show ?thesis by simp
    qed
  qed
qed

lemma steps_mode_plan:
  "steps (mode_plan org u p) =
     [\<lparr>step_url = ''https://app.mode.com/api/{organization}/spaces?filter=all'',
       step_params = [(''auth'', HTTPBasicAuth u p)],
       step_json_path = ''_embedded.spaces[*].[token]'',
       step_field_names = [''dashboard_group_id''],
       step_skip_no_result = None, step_json_path_contains_or = None\<rparr>,
      \<lparr>step_url = ''https://app.mode.com/api/{organization}/spaces/{dashboard_group_id}/reports'',
       step_params = [(''auth'', HTTPBasicAuth u p)],
       step_json_path = ''(_embedded.reports[*].token) | (_embedded.reports[*]._links.last_run.href)'',
       step_field_names = [''dashboard_id'', ''last_run_resource_path''],
       step_skip_no_result = Some True, step_json_path_contains_or = Some True\<rparr>,
      \<lparr>step_url = ''https://app.mode.com{last_run_resource_path}'',
       step_params = [(''auth'', HTTPBasicAuth u p)],
       step_json_path = ''[state,completed_at]'',
       step_field_names = [''execution_state'', ''execution_timestamp''],
       step_skip_no_result = Some True, step_json_path_contains_or = None\<rparr>]"
  by (simp add: mode_plan_def)

lemma url_fields_spaces:
  "url_fields ''https://app.mode.com/api/{organization}/spaces?filter=all'' = [''organization'']"
  by (simp add: url_fields_def)

lemma url_fields_reports:
  "url_fields ''https://app.mode.com/api/{organization}/spaces/{dashboard_group_id}/reports''
     = [''organization'', ''dashboard_group_id'']"
  by (simp add: url_fields_def)

lemma url_fields_run:
  "url_fields ''https://app.mode.com{last_run_resource_path}'' = [''last_run_resource_path'']"
  by (simp add: url_fields_def)

lemma output_fields_mode_plan:
  "output_fields (mode_plan org u p) =
     [''organization'', ''dashboard_group_id'', ''dashboard_id'', ''last_run_resource_path'',
      ''execution_state'', ''execution_timestamp'']"
  by (simp add: mode_plan_def)

lemma joined_mode_plan: "joined (mode_plan org u p)"
  by (simp add: mode_plan_def url_fields_spaces url_fields_reports url_fields_run)

lemma skip_no_result_flags:
  "map step_skip_no_result (steps (mode_plan org u p)) = [None, Some True, Some True]"
  by (simp add: steps_mode_plan)

lemma config_acme_keys:
  "get_string config_acme ORGANIZATION = Inr ''acme''"
  "get_string config_acme MODE_ACCESS_TOKEN = Inr ''user''"
  "get_string config_acme MODE_PASSWORD_TOKEN = Inr ''secret''"
  by (simp_all add: get_string_def config_acme_def ORGANIZATION_def MODE_ACCESS_TOKEN_def
      MODE_PASSWORD_TOKEN_def)

text \<open>
  Claim C2. With the three keys configured, the plan that \<^verbatim>\<open>_build_restapi_query\<close>
  returns is a chain of exactly three steps over the seed record that holds the configured
  organization. Step 1 calls the spaces URL and extracts \<^verbatim>\<open>dashboard_group_id\<close>;
  step 2 calls the reports URL of a space and extracts \<^verbatim>\<open>dashboard_id\<close> and
  \<^verbatim>\<open>last_run_resource_path\<close>; step 3 calls the last run's path and extracts
  \<^verbatim>\<open>execution_state\<close> and \<^verbatim>\<open>execution_timestamp\<close>. The replacement fields
  of each step's URL are the organization of the seed and the fields extracted by the
  steps before it, under the same names, and no step extracts a field name twice, so a
  join key is never overwritten on its way down the chain.
\<close>

theorem build_restapi_query_three_steps:
  assumes "get_string conf ORGANIZATION = Inr org"
    and "get_string conf MODE_ACCESS_TOKEN = Inr u"
    and "get_string conf MODE_PASSWORD_TOKEN = Inr p"
  shows "\<exists>q. build_restapi_query conf = Inr q
    \<and> seed_record q = [[(''organization'', PStr org)]]
    \<and> length (steps q) = 3
    \<and> map step_url (steps q) =
        [''https://app.mode.com/api/{organization}/spaces?filter=all'',
         ''https://app.mode.com/api/{organization}/spaces/{dashboard_group_id}/reports'',
         ''https://app.mode.com{last_run_resource_path}'']
    \<and> map step_json_path (steps q) =
        [''_embedded.spaces[*].[token]'',
         ''(_embedded.reports[*].token) | (_embedded.reports[*]._links.last_run.href)'',
         ''[state,completed_at]'']
    \<and> map step_field_names (steps q) =
        [[''dashboard_group_id''], [''dashboard_id'', ''last_run_resource_path''],
         [''execution_state'', ''execution_timestamp'']]
    \<and> map (\<lambda>s. url_fields (step_url s)) (steps q) =
        [[''organization''], [''organization'', ''dashboard_group_id''],
         [''last_run_resource_path'']]
    \<and> joined q
    \<and> distinct (output_fields q)"
proof -
  have q: "build_restapi_query conf = Inr (mode_plan org u p)"
    using assms by (rule build_restapi_query_plan)
  have "seed_record (mode_plan org u p) = [[(''organization'', PStr org)]]"
    by (simp add: mode_plan_def)
  moreover have "length (steps (mode_plan org u p)) = 3"
    by (simp add: steps_mode_plan)
  moreover have "map step_url (steps (mode_plan org u p)) =
        [''https://app.mode.com/api/{organization}/spaces?filter=all'',
         ''https://app.mode.com/api/{organization}/spaces/{dashboard_group_id}/reports'',
         ''https://app.mode.com{last_run_resource_path}'']"
    by (simp add: steps_mode_plan)
  moreover have "map step_json_path (steps (mode_plan org u p)) =
        [''_embedded.spaces[*].[token]'',
         ''(_embedded.reports[*].token) | (_embedded.reports[*]._links.last_run.href)'',
         ''[state,completed_at]'']"
    by (simp add: steps_mode_plan)
  moreover have "map step_field_names (steps (mode_plan org u p)) =
        [[''dashboard_group_id''], [''dashboard_id'', ''last_run_resource_path''],
         [''execution_state'', ''execution_timestamp'']]"
    by (simp add: steps_mode_plan)
  moreover have "map (\<lambda>s. url_fields (step_url s)) (steps (mode_plan org u p)) =
        [[''organization''], [''organization'', ''dashboard_group_id''],
         [''last_run_resource_path'']]"
    by (simp add: steps_mode_plan url_fields_spaces url_fields_reports url_fields_run)
  moreover have "joined (mode_plan org u p)"
    by (rule joined_mode_plan)
  moreover have "distinct (output_fields (mode_plan org u p))"
    by (simp add: output_fields_mode_plan)
  ultimately show ?thesis
    unfolding q by simp
qed

theorem build_restapi_query_three_steps_witness:
  "get_string config_acme ORGANIZATION = Inr ''acme''
   \<and> get_string config_acme MODE_ACCESS_TOKEN = Inr ''user''
   \<and> get_string config_acme MODE_PASSWORD_TOKEN = Inr ''secret''
   \<and> (\<exists>q. build_restapi_query config_acme = Inr q
        \<and> seed_record q = [[(''organization'', PStr ''acme'')]]
        \<and> length (steps q) = 3 \<and> joined q)"
  using build_restapi_query_three_steps [OF config_acme_keys] config_acme_keys by auto

text \<open>
  Claim C8. The three steps of the built plan carry the same parameters: the one
  \<^verbatim>\<open>HTTPBasicAuth\<close> pair made of the configured \<^verbatim>\<open>mode_user_token\<close> and
  \<^verbatim>\<open>mode_password_token\<close>. No step has another credential.
\<close>

theorem same_credentials_every_step:
  assumes "get_string conf ORGANIZATION = Inr org"
    and "get_string conf MODE_ACCESS_TOKEN = Inr u"
    and "get_string conf MODE_PASSWORD_TOKEN = Inr p"
  shows "\<exists>q. build_restapi_query conf = Inr q
    \<and> map step_params (steps q) =
        [[(''auth'', HTTPBasicAuth u p)], [(''auth'', HTTPBasicAuth u p)],
         [(''auth'', HTTPBasicAuth u p)]]"
proof -
  have q: "build_restapi_query conf = Inr (mode_plan org u p)"
    using assms by (rule build_restapi_query_plan)
  have "map step_params (steps (mode_plan org u p)) =
        [[(''auth'', HTTPBasicAuth u p)], [(''auth'', HTTPBasicAuth u p)],
         [(''auth'', HTTPBasicAuth u p)]]"
    by (simp add: steps_mode_plan)
  then show ?thesis
    unfolding q by simp
qed

theorem same_credentials_every_step_witness:
  "get_string config_acme ORGANIZATION = Inr ''acme''
   \<and> get_string config_acme MODE_ACCESS_TOKEN = Inr ''user''
   \<and> get_string config_acme MODE_PASSWORD_TOKEN = Inr ''secret''
   \<and> (\<exists>q. build_restapi_query config_acme = Inr q
        \<and> map step_params (steps q) =
            [[(''auth'', HTTPBasicAuth ''user'' ''secret'')],
             [(''auth'', HTTPBasicAuth ''user'' ''secret'')],
             [(''auth'', HTTPBasicAuth ''user'' ''secret'')]])"
  using same_credentials_every_step [OF config_acme_keys] config_acme_keys by auto

subsection \<open>Scoped configuration\<close>

lemma strip_prefix_Some_iff: "strip_prefix xs ys = Some zs \<longleftrightarrow> ys = xs @ zs"
  by (induction xs ys rule: strip_prefix.induct) auto

lemma strip_prefix_append: "strip_prefix xs (xs @ zs) = Some zs"
  by (induction xs) auto

lemma set_get_scoped_conf:
  "(k, v) \<in> set (get_scoped_conf conf scope) \<longleftrightarrow> (scope @ k, v) \<in> set conf"
  by (induction conf)
    (auto simp: get_scoped_conf_def strip_prefix_Some_iff strip_prefix_append split: option.splits)

lemma map_of_get_scoped_conf:
  "map_of (get_scoped_conf conf scope) k = map_of conf (scope @ k)"
proof (induction conf)
  case Nil
  then show ?case by (simp add: get_scoped_conf_def)
next
  case (Cons a conf)
  obtain k' v where a: "a = (k', v)" by (cases a)
  show ?case
  proof (cases "strip_prefix scope k'")
    case None
    then have "k' \<noteq> scope @ k"
      using strip_prefix_Some_iff [of scope k' k] by auto
    with None Cons a show ?thesis
      by (simp add: get_scoped_conf_def)
  next
    case (Some z)
    then have "k' = scope @ z"
      by (simp add: strip_prefix_Some_iff)
    with Some Cons a show ?thesis
      by (simp add: get_scoped_conf_def)
  qed
qed

lemma map_of_with_fallback:
  "map_of (with_fallback self fallback) k =
     (case map_of self k of Some v \<Rightarrow> Some v | None \<Rightarrow> map_of fallback k)"
  by (simp add: with_fallback_def merge_conv' map_add_def)

lemma get_string_with_fallback:
  "get_string (with_fallback (get_scoped_conf conf scope) [([key], d)]) key =
     Inr (case map_of conf (scope @ [key]) of Some v \<Rightarrow> v | None \<Rightarrow> d)"
  by (simp add: get_string_def map_of_with_fallback map_of_get_scoped_conf split: option.splits)

lemma restapi_query_with_fallback:
  "map_of (with_fallback (map (\<lambda>(k, v). (k, CString v)) (get_scoped_conf conf scope))
             [([qk], CQuery q), ([sk, f], CString d)]) [qk] =
     Some (case map_of conf (scope @ [qk]) of Some s \<Rightarrow> CString s | None \<Rightarrow> CQuery q)"
  by (simp add: map_of_with_fallback map_of_map map_of_get_scoped_conf split: option.splits)

lemma distinct_with_fallback:
  "distinct (map fst fallback) \<Longrightarrow> distinct (map fst (with_fallback self fallback))"
  by (simp add: with_fallback_def distinct_merge)

subsection \<open>Initialisation\<close>

lemma init_build_error:
  "build_restapi_query conf = Inl e \<Longrightarrow> init K conf = Inl e"
  by (simp add: init_def)

text \<open>\<^verbatim>\<open>init\<close> succeeds exactly when the query can be built, with this result.\<close>

lemma init_built:
  assumes "build_restapi_query conf = Inr q"
  shows "init K conf =
     Inr \<lparr>self_conf = conf,
          self_extractor =
            \<lparr>restapi_query =
               (case map_of conf (restapi_scope K @ [REST_API_QUERY K]) of
                  Some s \<Rightarrow> CString s | None \<Rightarrow> CQuery q),
             static_dict =
               static_record_dict K
                 (with_fallback
                    (map (\<lambda>(k, v). (k, CString v)) (get_scoped_conf conf (restapi_scope K)))
                    [([REST_API_QUERY K], CQuery q),
                     ([STATIC_RECORD_DICT K, ''product''], CString ''mode'')]),
             iterator = None\<rparr>,
          self_transformer =
            ChainedTransformer
              [TimestampStringToEpoch
                 (case map_of conf (timestamp_scope K @ [FIELD_NAME K]) of
                    Some f \<Rightarrow> f | None \<Rightarrow> ''execution_timestamp''),
               DictToModel
                 (case map_of conf (dict_to_model_scope K @ [MODEL_CLASS K]) of
                    Some m \<Rightarrow> m | None \<Rightarrow> DASHBOARD_EXECUTION)]\<rparr>"
  using assms
  by (simp add: init_def Let_def restapi_init_def restapi_query_with_fallback
      timestamp_init_def dict_to_model_init_def get_string_with_fallback)

lemma init_Inr_built:
  assumes "init K conf = Inr self"
  shows "\<exists>org u p. build_restapi_query conf = Inr (mode_plan org u p)"
proof -
  have "\<not> (\<exists>e. build_restapi_query conf = Inl e)"
    using assms by (auto simp: init_build_error)
  then show ?thesis
    using build_restapi_query_cases [of conf] by auto
qed

lemma init_transformer:
  assumes "init K conf = Inr self"
  shows "\<exists>f m. self_transformer self = ChainedTransformer [TimestampStringToEpoch f, DictToModel m]"
proof -
  obtain q where "build_restapi_query conf = Inr q"
    using init_Inr_built [OF assms] by auto
  from init_built [OF this, of K] assms show ?thesis by auto
qed

lemma init_timestamp_field:
  assumes "init K conf = Inr self"
  shows "\<exists>m. self_transformer self =
           ChainedTransformer
             [TimestampStringToEpoch
                (case map_of conf (timestamp_scope K @ [FIELD_NAME K]) of
                   Some f \<Rightarrow> f | None \<Rightarrow> ''execution_timestamp''),
              DictToModel m]"
proof -
  obtain q where "build_restapi_query conf = Inr q"
    using init_Inr_built [OF assms] by auto
  from init_built [OF this, of K] assms show ?thesis by auto
qed


lemma init_static_dict:
  assumes "init K conf = Inr self"
  shows "\<exists>q. static_dict (self_extractor self) =
     static_record_dict K
       (with_fallback (map (\<lambda>(k, v). (k, CString v)) (get_scoped_conf conf (restapi_scope K)))
          [([REST_API_QUERY K], CQuery q),
           ([STATIC_RECORD_DICT K, ''product''], CString ''mode'')])"
proof -
  obtain q where "build_restapi_query conf = Inr q"
    using init_Inr_built [OF assms] by auto
  from init_built [OF this, of K] assms show ?thesis by auto
qed

lemma init_config_acme:
  "init example_names config_acme = Inr (extractor_for config_acme ''execution_timestamp'' ''mode'')"
proof -
  have "build_restapi_query config_acme = Inr (mode_plan ''acme'' ''user'' ''secret'')"
    using config_acme_keys by (rule build_restapi_query_plan)
  from init_built [OF this, of example_names] show ?thesis
    by (simp add: extractor_for_def example_names_def config_acme_def static_record_dict_def
        get_scoped_conf_def with_fallback_def)
qed

lemma config_field_override_keys:
  "get_string config_field_override ORGANIZATION = Inr ''acme''"
  "get_string config_field_override MODE_ACCESS_TOKEN = Inr ''user''"
  "get_string config_field_override MODE_PASSWORD_TOKEN = Inr ''secret''"
  by (simp_all add: get_string_def config_field_override_def ORGANIZATION_def MODE_ACCESS_TOKEN_def
      MODE_PASSWORD_TOKEN_def)

lemma config_static_override_keys:
  "get_string config_static_override ORGANIZATION = Inr ''acme''"
  "get_string config_static_override MODE_ACCESS_TOKEN = Inr ''user''"
  "get_string config_static_override MODE_PASSWORD_TOKEN = Inr ''secret''"
  by (simp_all add: get_string_def config_static_override_def ORGANIZATION_def MODE_ACCESS_TOKEN_def
      MODE_PASSWORD_TOKEN_def)

lemma init_config_field_override:
  "init example_names config_field_override
     = Inr (extractor_for config_field_override ''completed_at'' ''mode'')"
proof -
  have "build_restapi_query config_field_override = Inr (mode_plan ''acme'' ''user'' ''secret'')"
    using config_field_override_keys by (rule build_restapi_query_plan)
  from init_built [OF this, of example_names] show ?thesis
    by (simp add: extractor_for_def example_names_def config_field_override_def
        static_record_dict_def get_scoped_conf_def with_fallback_def)
qed

lemma init_config_static_override:
  "init example_names config_static_override
     = Inr (extractor_for config_static_override ''execution_timestamp'' ''other'')"
proof -
  have "build_restapi_query config_static_override = Inr (mode_plan ''acme'' ''user'' ''secret'')"
    using config_static_override_keys by (rule build_restapi_query_plan)
  from init_built [OF this, of example_names] show ?thesis
    by (simp add: extractor_for_def example_names_def config_static_override_def
        static_record_dict_def get_scoped_conf_def with_fallback_def)
qed



text \<open>
  Claim C5. If the organization or one of the two tokens is absent from the configuration,
  \<^verbatim>\<open>_build_restapi_query\<close> raises \<^verbatim>\<open>ConfigMissingException\<close> for an absent
  key, and so does \<^verbatim>\<open>init\<close>, whatever the names of the other modules: no extractor
  comes out of \<^verbatim>\<open>init\<close> on which \<^verbatim>\<open>extract\<close> could be called.
\<close>

theorem init_fails_on_missing_key:
  assumes "map_of conf [ORGANIZATION] = None \<or> map_of conf [MODE_ACCESS_TOKEN] = None
           \<or> map_of conf [MODE_PASSWORD_TOKEN] = None"
  shows "\<exists>key. (key = ORGANIZATION \<or> key = MODE_ACCESS_TOKEN \<or> key = MODE_PASSWORD_TOKEN)
           \<and> map_of conf [key] = None
           \<and> build_restapi_query conf = Inl (ConfigMissingException [key])
           \<and> init K conf = Inl (ConfigMissingException [key])"
proof -
  have "\<not> (\<exists>org u p. get_string conf ORGANIZATION = Inr org
            \<and> get_string conf MODE_ACCESS_TOKEN = Inr u
            \<and> get_string conf MODE_PASSWORD_TOKEN = Inr p)"
    using assms by (auto simp: get_string_def)
  then have "\<exists>key. (key = ORGANIZATION \<or> key = MODE_ACCESS_TOKEN \<or> key = MODE_PASSWORD_TOKEN)
           \<and> map_of conf [key] = None
           \<and> build_restapi_query conf = Inl (ConfigMissingException [key])"
    using build_restapi_query_cases [of conf] by blast
  then show ?thesis
    using init_build_error by blast
qed

theorem init_fails_on_missing_key_witness:
  "map_of config_no_password [MODE_PASSWORD_TOKEN] = None
   \<and> init example_names config_no_password = Inl (ConfigMissingException [''mode_password_token''])"
proof -
  have h: "map_of config_no_password [MODE_PASSWORD_TOKEN] = None"
    by (simp add: config_no_password_def MODE_PASSWORD_TOKEN_def)
  have "map_of config_no_password [ORGANIZATION] \<noteq> None"
    "map_of config_no_password [MODE_ACCESS_TOKEN] \<noteq> None"
    by (simp_all add: config_no_password_def ORGANIZATION_def MODE_ACCESS_TOKEN_def)
  then show ?thesis
    using h init_fails_on_missing_key [of config_no_password example_names]
    by (auto simp: MODE_PASSWORD_TOKEN_def)
qed

subsection \<open>The extraction driver\<close>

lemma extract'_fst:
  "fst (extract' ex tf self) =
     (case fst (ex (self_extractor self)) of
        Inl err \<Rightarrow> Inl err
      | Inr r \<Rightarrow> if truthy r then tf (self_transformer self) r else Inr PNone)"
  by (simp add: extract'_def Let_def split: prod.splits sum.splits)

lemma extract'_snd:
  "snd (extract' ex tf self) = self\<lparr>self_extractor := snd (ex (self_extractor self))\<rparr>"
  by (simp add: extract'_def Let_def split: prod.splits sum.splits)


lemma extract'_exhausted:
  assumes "ex (self_extractor self) = (Inr PNone, self_extractor self)"
  shows "extract' ex tf self = (Inr PNone, self)"
  using assms by (simp add: extract'_def)

lemma after_calls_exhausted:
  assumes "ex (self_extractor self) = (Inr PNone, self_extractor self)"
  shows "after_calls (extract' ex tf) n self = self"
  using assms by (induction n) (simp_all add: extract'_exhausted)

lemma transform_all_two:
  "transform_all [TimestampStringToEpoch f, DictToModel m] r =
     (case transform (TimestampStringToEpoch f) r of
        Inl e \<Rightarrow> Inl e
      | Inr r' \<Rightarrow> transform (DictToModel m) r')"
  by (simp split: sum.splits)



text \<open>
  Claim C10. Whatever the underlying extractor and the transformer are: when the
  underlying extractor returns a value that Python takes for false (\<^verbatim>\<open>None\<close>, an
  empty dictionary, an empty string, ...), \<^verbatim>\<open>extract\<close> returns \<^verbatim>\<open>None\<close>. The
  result is the same for every transformer, also for one that raises on every input: the
  record is not passed to the transform chain, and no model comes out of it.
\<close>

theorem falsy_record_ends_stream:
  assumes "extractor_extract (self_extractor self) = (Inr record, e')"
    and "\<not> truthy record"
  shows "extract' extractor_extract transformer_transform self
           = (Inr PNone, self\<lparr>self_extractor := e'\<rparr>)"
  using assms by (simp add: extract'_def)

theorem falsy_record_ends_stream_witness:
  "(\<lambda>e::unit. (Inr (PDict []) :: error + pyval, e))
      (self_extractor \<lparr>self_conf = [], self_extractor = (), self_transformer = ()\<rparr>)
     = (Inr (PDict []), ())
   \<and> \<not> truthy (PDict [])
   \<and> extract' (\<lambda>e::unit. (Inr (PDict []), e)) (\<lambda>t r. Inr (PModel ''M'' []))
        \<lparr>self_conf = [], self_extractor = (), self_transformer = ()\<rparr>
      = (Inr PNone, \<lparr>self_conf = [], self_extractor = (), self_transformer = ()\<rparr>)"
  using falsy_record_ends_stream [of "\<lambda>e::unit. (Inr (PDict []), e)"
      "\<lparr>self_conf = [], self_extractor = (), self_transformer = ()\<rparr>" "PDict []" "()"
      "\<lambda>t r. Inr (PModel ''M'' [])"]
  by simp

text \<open>
  Claim C6. Whatever the underlying extractor and the transformer are: once the
  underlying extractor is exhausted, that is, a call of its \<^verbatim>\<open>extract\<close> returns
  \<^verbatim>\<open>None\<close> and leaves it as it is, \<^verbatim>\<open>extract\<close> returns \<^verbatim>\<open>None\<close>, raises
  nothing and leaves the extractor as it is, and so does every later call.
\<close>

theorem extract_after_exhaustion:
  assumes "extractor_extract (self_extractor self) = (Inr PNone, self_extractor self)"
  shows "extract' extractor_extract transformer_transform self = (Inr PNone, self)
    \<and> after_calls (extract' extractor_extract transformer_transform) n self = self
    \<and> extract' extractor_extract transformer_transform
        (after_calls (extract' extractor_extract transformer_transform) n self)
       = (Inr PNone, self)"
  using assms by (simp add: extract'_exhausted after_calls_exhausted)


subsection \<open>The REST extractor\<close>

lemma restapi_extract_exhausted:
  "iterator e = Some ([], None) \<Longrightarrow> restapi_extract srv e = (Inr PNone, e)"
  by (simp add: restapi_extract_def)

lemma restapi_extract_cases:
  "(\<exists>err. fst (restapi_extract srv e) = Inl err)
   \<or> (\<exists>r. fst (restapi_extract srv e) = Inr (PDict (dict_update r (static_dict e))))
   \<or> (fst (restapi_extract srv e) = Inr PNone
       \<and> iterator (snd (restapi_extract srv e)) = Some ([], None))"
  by (auto simp: restapi_extract_def split: option.splits conf_value.splits list.splits prod.splits)

text \<open>Once the REST extractor has returned \<^verbatim>\<open>None\<close>, it is exhausted for good.\<close>

lemma restapi_extract_None_exhausted:
  assumes "fst (restapi_extract srv e) = Inr PNone"
  shows "restapi_extract srv (snd (restapi_extract srv e))
           = (Inr PNone, snd (restapi_extract srv e))"
proof -
  have "iterator (snd (restapi_extract srv e)) = Some ([], None)"
    using assms restapi_extract_cases [of srv e] by auto
  then show ?thesis
    by (rule restapi_extract_exhausted)
qed

lemma restapi_extract_static_dict:
  "static_dict (snd (restapi_extract srv e)) = static_dict e"
  by (auto simp: restapi_extract_def split: option.splits conf_value.splits list.splits prod.splits)

lemma mode_extract_fst:
  "fst (mode_extract srv self) =
     (case fst (restapi_extract srv (self_extractor self)) of
        Inl err \<Rightarrow> Inl err
      | Inr r \<Rightarrow> if truthy r then chained_transform (self_transformer self) r else Inr PNone)"
  by (simp add: mode_extract_def extract'_fst)

lemma mode_extract_snd:
  "snd (mode_extract srv self) =
     self\<lparr>self_extractor := snd (restapi_extract srv (self_extractor self))\<rparr>"
  by (simp add: mode_extract_def extract'_snd)

lemma after_calls_mode_extract_transformer:
  "self_transformer (after_calls (mode_extract srv) n self) = self_transformer self"
  by (induction n arbitrary: self) (simp_all add: mode_extract_snd)

lemma after_calls_mode_extract_static_dict:
  "static_dict (self_extractor (after_calls (mode_extract srv) n self))
     = static_dict (self_extractor self)"
  by (induction n arbitrary: self) (simp_all add: mode_extract_snd restapi_extract_static_dict)

text \<open>The example service, on the extractor of an example configuration.\<close>

lemma epoch_2021: "iso8601_to_epoch ''2021-01-01T00:00:00Z'' = Some 1609459200"
  by (simp add: iso8601_to_epoch_def zone_ok_def digit_def days_in_month_def leap_year_def
      days_from_civil_def)

lemma epoch_1970: "iso8601_to_epoch ''1970-01-01T00:00:00Z'' = Some 0"
  by (simp add: iso8601_to_epoch_def zone_ok_def digit_def days_in_month_def leap_year_def
      days_from_civil_def)

lemma epoch_mode: "iso8601_to_epoch ''mode'' = None"
  by (simp add: iso8601_to_epoch_def)

lemma restapi_extract_first:
  "restapi_extract service_one (self_extractor (extractor_for conf field product)) =
     (Inr (PDict (record_run @ [(''product'', PStr product)])),
      \<lparr>restapi_query = CQuery (mode_plan ''acme'' ''user'' ''secret''),
       static_dict = [(''product'', PStr product)], iterator = Some ([], None)\<rparr>)"
  by (simp add: restapi_extract_def extractor_for_def service_one_def dict_update_def
      record_run_def)

lemma restapi_extract_second:
  "restapi_extract service_one
      (self_extractor (snd (mode_extract service_one (extractor_for conf field product))))
     = (Inr PNone,
        self_extractor (snd (mode_extract service_one (extractor_for conf field product))))"
  by (simp add: mode_extract_snd restapi_extract_first restapi_extract_exhausted)

lemma mode_extract_first_default:
  "fst (mode_extract service_one (extractor_for conf ''execution_timestamp'' product)) =
     Inr (PModel DASHBOARD_EXECUTION
       [(''organization'', PStr ''acme''), (''dashboard_group_id'', PStr ''sp1''),
        (''dashboard_id'', PStr ''r1''), (''last_run_resource_path'', PStr ''/runs/1''),
        (''execution_state'', PStr ''succeeded''),
        (''execution_timestamp'', PInt 1609459200), (''product'', PStr product)])"
  by (simp add: mode_extract_fst restapi_extract_first)
    (simp add: extractor_for_def record_run_def epoch_2021)

lemma mode_extract_first_completed_at:
  "fst (mode_extract service_one (extractor_for conf ''completed_at'' product)) =
     Inr (PModel DASHBOARD_EXECUTION
       [(''organization'', PStr ''acme''), (''dashboard_group_id'', PStr ''sp1''),
        (''dashboard_id'', PStr ''r1''), (''last_run_resource_path'', PStr ''/runs/1''),
        (''execution_state'', PStr ''succeeded''),
        (''execution_timestamp'', PStr ''2021-01-01T00:00:00Z''), (''product'', PStr product)])"
  by (simp add: mode_extract_fst restapi_extract_first)
    (simp add: extractor_for_def record_run_def)

theorem extract_after_exhaustion_witness:
  "restapi_extract service_one
      (self_extractor
         (snd (mode_extract service_one
                 (extractor_for config_acme ''execution_timestamp'' ''mode''))))
     = (Inr PNone,
        self_extractor
          (snd (mode_extract service_one
                  (extractor_for config_acme ''execution_timestamp'' ''mode''))))
   \<and> extract' (restapi_extract service_one) chained_transform
        (after_calls (extract' (restapi_extract service_one) chained_transform) 3
           (snd (mode_extract service_one
                   (extractor_for config_acme ''execution_timestamp'' ''mode''))))
      = (Inr PNone,
         snd (mode_extract service_one
                (extractor_for config_acme ''execution_timestamp'' ''mode'')))"
proof -
  have h: "restapi_extract service_one
      (self_extractor
         (snd (mode_extract service_one
                 (extractor_for config_acme ''execution_timestamp'' ''mode''))))
     = (Inr PNone,
        self_extractor
          (snd (mode_extract service_one
                  (extractor_for config_acme ''execution_timestamp'' ''mode''))))"
    by (rule restapi_extract_second)
  from extract_after_exhaustion
         [where extractor_extract = "restapi_extract service_one"
            and self = "snd (mode_extract service_one
                              (extractor_for config_acme ''execution_timestamp'' ''mode''))"
            and transformer_transform = chained_transform and n = 3, OF h]
  have "extract' (restapi_extract service_one) chained_transform
        (after_calls (extract' (restapi_extract service_one) chained_transform) 3
           (snd (mode_extract service_one
                   (extractor_for config_acme ''execution_timestamp'' ''mode''))))
      = (Inr PNone,
         snd (mode_extract service_one
                (extractor_for config_acme ''execution_timestamp'' ''mode'')))"
    by (elim conjE)
  with h show ?thesis
    by (intro conjI)
qed



subsection \<open>Timestamp normalization\<close>

text \<open>
  Claim C4, as amended. The field that the timestamp transformer targets is the one the
  configuration names under \<^verbatim>\<open>FIELD_NAME\<close> in the transformer's scope;
  \<^verbatim>\<open>execution_timestamp\<close> is the fallback of \<^verbatim>\<open>init\<close>. When the configuration
  does not name a field there, the transformer targets \<^verbatim>\<open>execution_timestamp\<close>, and a
  record with \<^verbatim>\<open>2021-01-01T00:00:00Z\<close> in that field is transformed into the record
  with the integer 1609459200 in it.
\<close>

theorem timestamp_field_default:
  assumes "init K conf = Inr self"
    and "map_of conf (timestamp_scope K @ [FIELD_NAME K]) = None"
    and "map_of r ''execution_timestamp'' = Some (PStr ''2021-01-01T00:00:00Z'')"
  shows "\<exists>m. self_transformer self =
           ChainedTransformer [TimestampStringToEpoch ''execution_timestamp'', DictToModel m]
    \<and> transform (TimestampStringToEpoch ''execution_timestamp'') (PDict r)
        = Inr (PDict (AList.update ''execution_timestamp'' (PInt 1609459200) r))
    \<and> iso8601_to_epoch ''2021-01-01T00:00:00Z'' = Some 1609459200"
proof -
  obtain m where "self_transformer self =
      ChainedTransformer [TimestampStringToEpoch ''execution_timestamp'', DictToModel m]"
    using init_timestamp_field [OF assms(1)] assms(2) by auto
  moreover have "transform (TimestampStringToEpoch ''execution_timestamp'') (PDict r)
        = Inr (PDict (AList.update ''execution_timestamp'' (PInt 1609459200) r))"
    using assms(3) by (simp add: epoch_2021)
  ultimately show ?thesis
    using epoch_2021 by simp
qed

theorem timestamp_field_default_witness:
  "init example_names config_acme = Inr (extractor_for config_acme ''execution_timestamp'' ''mode'')
   \<and> map_of config_acme (timestamp_scope example_names @ [FIELD_NAME example_names]) = None
   \<and> map_of record_run ''execution_timestamp'' = Some (PStr ''2021-01-01T00:00:00Z'')
   \<and> (\<exists>m. self_transformer (extractor_for config_acme ''execution_timestamp'' ''mode'') =
           ChainedTransformer [TimestampStringToEpoch ''execution_timestamp'', DictToModel m]
        \<and> transform (TimestampStringToEpoch ''execution_timestamp'') (PDict record_run)
            = Inr (PDict (AList.update ''execution_timestamp'' (PInt 1609459200) record_run))
        \<and> iso8601_to_epoch ''2021-01-01T00:00:00Z'' = Some 1609459200)"
proof -
  have h2: "map_of config_acme (timestamp_scope example_names @ [FIELD_NAME example_names]) = None"
    by (simp add: config_acme_def example_names_def)
  have h3: "map_of record_run ''execution_timestamp'' = Some (PStr ''2021-01-01T00:00:00Z'')"
    by (simp add: record_run_def)
  from init_config_acme h2 h3 timestamp_field_default [OF init_config_acme h2 h3]
  show ?thesis
    by (intro conjI)
qed

text \<open>
  The claim as stated, for every configuration, fails: with a field name configured in the
  scope of the transformer, \<^verbatim>\<open>init\<close> returns a transformer that targets that field,
  and the model that \<^verbatim>\<open>extract\<close> returns keeps the timestamp as a string.
\<close>

theorem timestamp_field_overridden:
  "init example_names config_field_override
     = Inr (extractor_for config_field_override ''completed_at'' ''mode'')
   \<and> self_transformer (extractor_for config_field_override ''completed_at'' ''mode'')
     = ChainedTransformer [TimestampStringToEpoch ''completed_at'', DictToModel DASHBOARD_EXECUTION]
   \<and> fst (mode_extract service_one (extractor_for config_field_override ''completed_at'' ''mode''))
     = Inr (PModel DASHBOARD_EXECUTION
         [(''organization'', PStr ''acme''), (''dashboard_group_id'', PStr ''sp1''),
          (''dashboard_id'', PStr ''r1''), (''last_run_resource_path'', PStr ''/runs/1''),
          (''execution_state'', PStr ''succeeded''),
          (''execution_timestamp'', PStr ''2021-01-01T00:00:00Z''),
          (''product'', PStr ''mode'')])"
  using init_config_field_override
    mode_extract_first_completed_at [of config_field_override "''mode''"]
  by (simp add: extractor_for_def)

subsection \<open>The static product field\<close>

lemma set_static_fields:
  "(f, v) \<in> set (List.map_filter
       (\<lambda>(k, v). case k of
                    [f] \<Rightarrow> (case v of CString s \<Rightarrow> Some (f, PStr s) | CQuery q \<Rightarrow> None)
                  | _ \<Rightarrow> None) xs)
   \<longleftrightarrow> (\<exists>s. v = PStr s \<and> ([f], CString s) \<in> set xs)"
  by (induction xs) (auto split: list.splits conf_value.splits)

lemma set_static_record_dict:
  "(f, v) \<in> set (static_record_dict K conf)
   \<longleftrightarrow> (\<exists>s. v = PStr s \<and> ([STATIC_RECORD_DICT K, f], CString s) \<in> set conf)"
  by (simp add: static_record_dict_def set_static_fields set_get_scoped_conf)

lemma static_product_mode:
  assumes "map_of conf (scope @ [STATIC_RECORD_DICT K, ''product'']) = None"
  shows "(''product'', v) \<in> set (static_record_dict K
            (with_fallback (map (\<lambda>(k, v). (k, CString v)) (get_scoped_conf conf scope))
               [([REST_API_QUERY K], CQuery q),
                ([STATIC_RECORD_DICT K, ''product''], CString ''mode'')]))
         \<longleftrightarrow> v = PStr ''mode''"
proof -
  let ?self = "map (\<lambda>(k, v). (k, CString v)) (get_scoped_conf conf scope)"
  let ?fb = "[([REST_API_QUERY K], CQuery q),
              ([STATIC_RECORD_DICT K, ''product''], CString ''mode'')]"
  have d: "distinct (map fst (with_fallback ?self ?fb))"
    by (rule distinct_with_fallback) simp
  have "map_of ?self [STATIC_RECORD_DICT K, ''product''] = None"
    using assms by (simp add: map_of_map map_of_get_scoped_conf)
  then have m: "map_of (with_fallback ?self ?fb) [STATIC_RECORD_DICT K, ''product'']
                  = Some (CString ''mode'')"
    by (simp add: map_of_with_fallback)
  have "([STATIC_RECORD_DICT K, ''product''], c) \<in> set (with_fallback ?self ?fb)
          \<longleftrightarrow> c = CString ''mode''" for c
    using map_of_eq_Some_iff [OF d, of "[STATIC_RECORD_DICT K, ''product'']" c] m by auto
  then show ?thesis
    by (auto simp: set_static_record_dict)
qed

lemma dict_update_snoc:
  "dict_update d (other @ [(k, v)]) = AList.update k v (dict_update d other)"
  by (simp add: dict_update_def)

lemma dict_update_lookup:
  assumes "(k, w) \<in> set other" and "\<And>v. (k, v) \<in> set other \<Longrightarrow> v = w"
  shows "map_of (dict_update d other) k = Some w"
  using assms
proof (induction other rule: rev_induct)
  case Nil
  then show ?case by simp
next
  case (snoc x xs)
  obtain k' v' where x: "x = (k', v')" by (cases x)
  show ?case
  proof (cases "k' = k")
    case True
    then have "v' = w"
      using snoc.prems(2) [of v'] x by simp
    with True x show ?thesis
      by (simp add: dict_update_snoc update_conv')
  next
    case False
    then have "(k, w) \<in> set xs"
      using snoc.prems(1) x by auto
    moreover have "\<And>v. (k, v) \<in> set xs \<Longrightarrow> v = w"
      using snoc.prems(2) by simp
    ultimately have "map_of (dict_update d xs) k = Some w"
      by (rule snoc.IH)
    with False x show ?thesis
      by (simp add: dict_update_snoc update_conv')
  qed
qed

lemma transform_timestamp_keeps_product:
  assumes "transform (TimestampStringToEpoch f) (PDict r) = Inr v"
    and "map_of r ''product'' = Some (PStr ''mode'')"
  shows "\<exists>r'. v = PDict r' \<and> map_of r' ''product'' = Some (PStr ''mode'')"
proof (cases "f = ''product''")
  case True
  with assms show ?thesis
    by (simp add: epoch_mode)
next
  case False
  with assms show ?thesis
    by (auto simp: update_conv' split: option.splits sum.splits)
qed

text \<open>
  Claim C7, as amended. The static record \<^verbatim>\<open>{'product': 'mode'}\<close> is the fallback
  of \<^verbatim>\<open>init\<close> for the REST extractor. When the configuration does not set
  \<^verbatim>\<open>product\<close> in the static record of the REST extractor's scope, every model that
  \<^verbatim>\<open>extract\<close> returns, at any call and whatever the service answers, has the field
  \<^verbatim>\<open>product\<close> with the value \<^verbatim>\<open>mode\<close>.
\<close>

theorem emitted_model_has_product_mode:
  assumes "init K conf = Inr self0"
    and "map_of conf (restapi_scope K @ [STATIC_RECORD_DICT K, ''product'']) = None"
    and "fst (mode_extract srv (after_calls (mode_extract srv) n self0)) = Inr v"
  shows "v = PNone \<or> (\<exists>c kw. v = PModel c kw \<and> map_of kw ''product'' = Some (PStr ''mode''))"
proof -
  let ?self = "after_calls (mode_extract srv) n self0"
  obtain f m where tr: "self_transformer ?self
      = ChainedTransformer [TimestampStringToEpoch f, DictToModel m]"
    using init_transformer [OF assms(1)] by (auto simp: after_calls_mode_extract_transformer)
  obtain q where "static_dict (self_extractor self0) =
     static_record_dict K
       (with_fallback (map (\<lambda>(k, v). (k, CString v)) (get_scoped_conf conf (restapi_scope K)))
          [([REST_API_QUERY K], CQuery q),
           ([STATIC_RECORD_DICT K, ''product''], CString ''mode'')])"
    using init_static_dict [OF assms(1)] by auto
  then have sd: "(''product'', w) \<in> set (static_dict (self_extractor ?self)) \<longleftrightarrow> w = PStr ''mode''"
    for w
    using static_product_mode [OF assms(2), of w q]
    by (simp add: after_calls_mode_extract_static_dict)
  have lk: "map_of (dict_update r (static_dict (self_extractor ?self))) ''product''
              = Some (PStr ''mode'')" for r
    by (rule dict_update_lookup) (simp_all add: sd)
  consider (failed) err where "fst (restapi_extract srv (self_extractor ?self)) = Inl err"
    | (yielded) r where "fst (restapi_extract srv (self_extractor ?self))
                       = Inr (PDict (dict_update r (static_dict (self_extractor ?self))))"
    | (ended) "fst (restapi_extract srv (self_extractor ?self)) = Inr PNone"
    using restapi_extract_cases [of srv "self_extractor ?self"] by auto
  then show ?thesis
  proof cases
    case failed
    with assms(3) show ?thesis by (simp add: mode_extract_fst)
  next
    case yielded
    let ?r = "dict_update r (static_dict (self_extractor ?self))"
    have "?r \<noteq> []"
      using lk [of r] by auto
    with yielded tr
    have "fst (mode_extract srv ?self)
            = transform_all [TimestampStringToEpoch f, DictToModel m] (PDict ?r)"
      by (simp add: mode_extract_fst del: transform_all.simps transform.simps)
    with assms(3)
    have run: "(case transform (TimestampStringToEpoch f) (PDict ?r) of
                  Inl e \<Rightarrow> Inl e
                | Inr r' \<Rightarrow> transform (DictToModel m) r') = Inr v"
      by (simp only: transform_all_two)
    then obtain v' where v': "transform (TimestampStringToEpoch f) (PDict ?r) = Inr v'"
      and fin: "transform (DictToModel m) v' = Inr v"
      by (auto split: sum.splits)
    obtain r' where "v' = PDict r'" and "map_of r' ''product'' = Some (PStr ''mode'')"
      using transform_timestamp_keeps_product [OF v' lk] by auto
    with fin show ?thesis by auto
  next
    case ended
    with assms(3) show ?thesis by (simp add: mode_extract_fst)
  qed
qed


theorem emitted_model_has_product_mode_witness:
  "init example_names config_acme = Inr (extractor_for config_acme ''execution_timestamp'' ''mode'')
   \<and> map_of config_acme
        (restapi_scope example_names @ [STATIC_RECORD_DICT example_names, ''product'']) = None
   \<and> fst (mode_extract service_one
            (after_calls (mode_extract service_one) 0
               (extractor_for config_acme ''execution_timestamp'' ''mode'')))
       = Inr (PModel DASHBOARD_EXECUTION
           [(''organization'', PStr ''acme''), (''dashboard_group_id'', PStr ''sp1''),
            (''dashboard_id'', PStr ''r1''), (''last_run_resource_path'', PStr ''/runs/1''),
            (''execution_state'', PStr ''succeeded''),
            (''execution_timestamp'', PInt 1609459200), (''product'', PStr ''mode'')])
   \<and> (\<exists>c kw. PModel DASHBOARD_EXECUTION
           [(''organization'', PStr ''acme''), (''dashboard_group_id'', PStr ''sp1''),
            (''dashboard_id'', PStr ''r1''), (''last_run_resource_path'', PStr ''/runs/1''),
            (''execution_state'', PStr ''succeeded''),
            (''execution_timestamp'', PInt 1609459200), (''product'', PStr ''mode'')]
          = PModel c kw \<and> map_of kw ''product'' = Some (PStr ''mode''))"
proof -
  have h2: "map_of config_acme
        (restapi_scope example_names @ [STATIC_RECORD_DICT example_names, ''product'']) = None"
    by (simp add: config_acme_def example_names_def)
  have h3: "fst (mode_extract service_one
            (after_calls (mode_extract service_one) 0
               (extractor_for config_acme ''execution_timestamp'' ''mode'')))
       = Inr (PModel DASHBOARD_EXECUTION
           [(''organization'', PStr ''acme''), (''dashboard_group_id'', PStr ''sp1''),
            (''dashboard_id'', PStr ''r1''), (''last_run_resource_path'', PStr ''/runs/1''),
            (''execution_state'', PStr ''succeeded''),
            (''execution_timestamp'', PInt 1609459200), (''product'', PStr ''mode'')])"
    by (simp add: mode_extract_first_default)
  from emitted_model_has_product_mode [OF init_config_acme h2 h3]
  have "\<exists>c kw. PModel DASHBOARD_EXECUTION
           [(''organization'', PStr ''acme''), (''dashboard_group_id'', PStr ''sp1''),
            (''dashboard_id'', PStr ''r1''), (''last_run_resource_path'', PStr ''/runs/1''),
            (''execution_state'', PStr ''succeeded''),
            (''execution_timestamp'', PInt 1609459200), (''product'', PStr ''mode'')]
          = PModel c kw \<and> map_of kw ''product'' = Some (PStr ''mode'')"
    by simp
  with init_config_acme h2 h3 show ?thesis
    by (intro conjI)
qed

text \<open>
  The claim as stated, for every configuration, fails: with a product configured in the
  static record of the REST extractor's scope, the model that \<^verbatim>\<open>extract\<close> returns
  carries that product.
\<close>

theorem product_overridden:
  "init example_names config_static_override
     = Inr (extractor_for config_static_override ''execution_timestamp'' ''other'')
   \<and> fst (mode_extract service_one
            (extractor_for config_static_override ''execution_timestamp'' ''other''))
     = Inr (PModel DASHBOARD_EXECUTION
         [(''organization'', PStr ''acme''), (''dashboard_group_id'', PStr ''sp1''),
          (''dashboard_id'', PStr ''r1''), (''last_run_resource_path'', PStr ''/runs/1''),
          (''execution_state'', PStr ''succeeded''),
          (''execution_timestamp'', PInt 1609459200), (''product'', PStr ''other'')])"
  using init_config_static_override
    mode_extract_first_default [of config_static_override "''other''"]
  by (intro conjI)

end
